theory Spec2Isabelle
  imports Complex_Main
begin

section \<open>JavaScript strings and the built-ins the service uses\<close>

text \<open>
  A JavaScript string is a sequence of code units. It is modelled as a \<^typ>\<open>string\<close>, one
  \<^typ>\<open>char\<close> per code unit, which covers the code units below 256. In that range the
  regular-expression class \<^verbatim>\<open>\s\<close> and \<^verbatim>\<open>String.prototype.trim\<close> agree on the white space:
  tab, line feed, vertical tab, form feed, carriage return, space and the no-break space.
  Without the \<^verbatim>\<open>u\<close> and \<^verbatim>\<open>i\<close> flags the class \<^verbatim>\<open>\w\<close> is \<^verbatim>\<open>[A-Za-z0-9_]\<close>.
\<close>

definition is_space :: "char \<Rightarrow> bool" where
  "is_space c = (c \<in> set [CHR 0x09, CHR 0x0A, CHR 0x0B, CHR 0x0C, CHR 0x0D, CHR 0x20, CHR 0xA0])"

definition is_word :: "char \<Rightarrow> bool" where
  "is_word c = (c \<in> set (''abcdefghijklmnopqrstuvwxyz'' @ ''ABCDEFGHIJKLMNOPQRSTUVWXYZ''
                             @ ''0123456789'' @ ''_''))"

text \<open>\<^verbatim>\<open>s.trim()\<close>: the white space at both ends is removed.\<close>

definition trim :: "string \<Rightarrow> string" where
  "trim s = rev (dropWhile is_space (rev (dropWhile is_space s)))"

text \<open>\<^verbatim>\<open>s.startsWith(p)\<close> and \<^verbatim>\<open>s.includes(p)\<close>.\<close>

definition startsWith :: "string \<Rightarrow> string \<Rightarrow> bool" where
  "startsWith s p = (take (length p) s = p)"

fun str_includes :: "string \<Rightarrow> string \<Rightarrow> bool" where
  "str_includes [] p = (p = [])"
| "str_includes (x # xs) p = (startsWith (x # xs) p \<or> str_includes xs p)"

text \<open>
  \<^verbatim>\<open>s.replace(/\bc\b/g, r)\<close> for a word character \<^verbatim>\<open>c\<close>: every occurrence of \<^verbatim>\<open>c\<close>
  that has no word character before it and none after it is replaced by \<^verbatim>\<open>r\<close>. The
  matches are single code units of the subject, so they cannot overlap, and the boundary
  tests look at the subject, not at what has been substituted. The flag \<open>pw\<close> says
  whether the code unit before the current position is a word character.
\<close>

fun replace_word :: "char \<Rightarrow> string \<Rightarrow> bool \<Rightarrow> string \<Rightarrow> string" where
  "replace_word c r pw [] = []"
| "replace_word c r pw (x # xs) =
     (if x = c \<and> \<not> pw \<and> (case xs of [] \<Rightarrow> True | y # _ \<Rightarrow> \<not> is_word y)
      then r @ replace_word c r (is_word x) xs
      else x # replace_word c r (is_word x) xs)"

text \<open>
  \<^verbatim>\<open>s.replace(/\s+/g, ' ')\<close>: every maximal run of white space becomes one space. The
  flag says whether the current position is inside a run that has already been replaced.
\<close>

fun collapse_ws :: "bool \<Rightarrow> string \<Rightarrow> string" where
  "collapse_ws in_run [] = []"
| "collapse_ws in_run (x # xs) =
     (if is_space x then (if in_run then collapse_ws True xs else CHR '' '' # collapse_ws True xs)
      else x # collapse_ws False xs)"

text \<open>\<^verbatim>\<open>/[.!?]$/.test(s)\<close>: without the \<^verbatim>\<open>m\<close> flag, \<^verbatim>\<open>$\<close> is the end of the subject.\<close>

definition ends_with_terminal :: "string \<Rightarrow> bool" where
  "ends_with_terminal s = (case rev s of [] \<Rightarrow> False | c # _ \<Rightarrow> c \<in> set ''.!?'')"

section \<open>The Gemini service: the mock response\<close>

record rewrite_metadata =
  processingTime :: int
  model :: string
  meta_tone :: string
  meta_type :: string
  originalLength :: nat
  rewrittenLength :: nat
  apiCost :: rat
  meta_note :: "string option"

text \<open>The object \<^verbatim>\<open>{ success, rewrittenPrompt, metadata }\<close> of a rewrite that produced a text.\<close>

record rewrite_ok =
  success :: bool
  rewrittenPrompt :: string
  metadata :: rewrite_metadata

text \<open>The first statement of \<^verbatim>\<open>getMockResponse\<close>: the two substitutions, the white space, the trim.\<close>

definition basic_improvements :: "string \<Rightarrow> string" where
  "basic_improvements originalPrompt =
     trim (collapse_ws False
       (replace_word CHR ''u'' ''you'' False
         (replace_word CHR ''i'' ''I'' False originalPrompt)))"

definition add_punctuation :: "string \<Rightarrow> string" where
  "add_punctuation s = (if \<not> ends_with_terminal s then s @ ''.'' else s)"

definition tone_modification :: "string \<Rightarrow> string \<Rightarrow> string" where
  "tone_modification tone s =
     (if tone = ''formal'' then ''I would like to formally request assistance with the following: '' @ s
      else if tone = ''friendly'' then ''Hi there! '' @ s @ '' Hope this helps!''
      else if tone = ''casual'' then ''Hey, '' @ s
      else s)"

definition type_modification :: "string \<Rightarrow> string \<Rightarrow> string" where
  "type_modification type s =
     (if type = ''email''
      then ''Subject: Request for Assistance'' @ [CHR 0x0A, CHR 0x0A] @ ''Dear [Recipient],''
           @ [CHR 0x0A, CHR 0x0A] @ s @ [CHR 0x0A, CHR 0x0A] @ ''Best regards,''
           @ [CHR 0x0A] @ ''[Your Name]''
      else s)"

text \<open>The text that \<^verbatim>\<open>getMockResponse\<close> builds in \<^verbatim>\<open>mockRewritten\<close>.\<close>

definition mockRewritten :: "string \<Rightarrow> string \<Rightarrow> string \<Rightarrow> string" where
  "mockRewritten originalPrompt tone type =
     type_modification type (tone_modification tone (add_punctuation (basic_improvements originalPrompt)))"

text \<open>
  \<^verbatim>\<open>getMockResponse(originalPrompt, tone, type, startTime)\<close>. The reading of the clock
  (\<^verbatim>\<open>Date.now()\<close>) is the parameter \<open>now\<close>.
\<close>

definition getMockResponse :: "string \<Rightarrow> string \<Rightarrow> string \<Rightarrow> int \<Rightarrow> int \<Rightarrow> rewrite_ok" where
  "getMockResponse originalPrompt tone type startTime now =
     \<lparr> success = True,
       rewrittenPrompt = mockRewritten originalPrompt tone type,
       metadata = \<lparr> processingTime = now - startTime,
                    model = ''mock-gemini'',
                    meta_tone = tone,
                    meta_type = type,
                    originalLength = length originalPrompt,
                    rewrittenLength = length (mockRewritten originalPrompt tone type),
                    apiCost = 0,
                    meta_note = Some ''This is a mock response. Please configure a valid GEMINI_API_KEY for actual AI rewriting.'' \<rparr> \<rparr>"

section \<open>The Gemini service: initialisation and the rewrite\<close>

text \<open>
  The service object holds two handles, \<^verbatim>\<open>this.genAI\<close> and \<^verbatim>\<open>this.model\<close>; only
  whether each is set matters to the code. \<^verbatim>\<open>initializeService\<close> reads the key from the
  environment (absent, or a string); \<open>sdk_ok\<close> says whether the provider's library builds
  the model handle without throwing.
\<close>

record gemini_service =
  genAI :: bool
  model_handle :: bool

definition initializeService :: "string option \<Rightarrow> bool \<Rightarrow> gemini_service" where
  "initializeService GEMINI_API_KEY sdk_ok =
     (case GEMINI_API_KEY of
        None \<Rightarrow> \<lparr> genAI = False, model_handle = False \<rparr>
      | Some k \<Rightarrow>
          if k = [] then \<lparr> genAI = False, model_handle = False \<rparr>
          else if \<not> startsWith k ''AIza'' then \<lparr> genAI = False, model_handle = False \<rparr>
          else if sdk_ok then \<lparr> genAI = True, model_handle = True \<rparr>
          else \<lparr> genAI = False, model_handle = False \<rparr>)"

text \<open>
  What the awaiting code observes of a call of the provider: the text of the response, an
  error with its message, or nothing. For the probe of \<^verbatim>\<open>testConnection\<close>, which has no
  timeout, \<open>Unsettled\<close> is a call that never settles; for the rewrite call, which races a
  timer of 30 seconds, it is a call still pending when the timer fires.
\<close>

datatype api_outcome = Resolves string | Rejects string | Unsettled

datatype api_call = ProbeCall | GenerateCall string

record world =
  probe :: api_outcome
  generate :: api_outcome
  clock_start :: int
  clock_end :: int

record connection_test =
  test_success :: bool
  test_error :: "string option"
  test_response :: "string option"

text \<open>\<^verbatim>\<open>testConnection\<close>; \<open>None\<close> when the probe never settles.\<close>

definition testConnection :: "gemini_service \<Rightarrow> world \<Rightarrow> (connection_test \<times> api_call list) option" where
  "testConnection svc w =
     (if \<not> genAI svc \<or> \<not> model_handle svc
      then Some (\<lparr> test_success = False, test_error = Some ''Service not initialized'',
                     test_response = None \<rparr>, [])
      else case probe w of
             Resolves text \<Rightarrow>
               Some (\<lparr> test_success = True, test_error = None, test_response = Some text \<rparr>, [ProbeCall])
           | Rejects m \<Rightarrow>
               Some (\<lparr> test_success = False, test_error = Some m, test_response = None \<rparr>, [ProbeCall])
           | Unsettled \<Rightarrow> None)"

text \<open>
  \<^verbatim>\<open>calculateCost\<close> works in binary floating point. \<open>fl\<close> is the rounding of a rational
  to the nearest double, ties to the even mantissa, in the range of the normal numbers:
  \<open>bits\<close> is the length of a positive integer in binary, \<open>ilog2\<close> the exponent of a
  positive number, and the mantissa has 53 bits. The division, the
  literal \<^verbatim>\<open>0.0005\<close> and the multiplication are each rounded so. \<^verbatim>\<open>toFixed(6)\<close> takes
  the decimal of six digits nearest to the exact value of the double, the larger one on a
  tie; the result is that decimal.
\<close>

function bits :: "int \<Rightarrow> nat" where
  "bits n = (if n \<le> 0 then 0 else Suc (bits (n div 2)))"
  by pat_completeness auto
termination
  by (relation "measure nat") auto

definition ilog2 :: "rat \<Rightarrow> int" where
  "ilog2 x =
     (case quotient_of x of
        (p, q) \<Rightarrow> (let d = int (bits p) - int (bits q)
                   in if 2 powi d \<le> x then d else d - 1))"

definition round_even :: "rat \<Rightarrow> int" where
  "round_even k =
     (let f = floor k; d = k - of_int f
      in if d < 1 / 2 then f
         else if 1 / 2 < d then f + 1
         else if even f then f else f + 1)"

definition fl :: "rat \<Rightarrow> rat" where
  "fl x =
     (if x = 0 then 0
      else let e = ilog2 \<bar>x\<bar>; u = 2 powi (e - 52)
           in of_int (round_even (x / u)) * u)"

definition calculateCost :: "string \<Rightarrow> string \<Rightarrow> rat" where
  "calculateCost originalText rewrittenText =
     (let totalChars = length originalText + length rewrittenText;
          estimatedCost = fl (fl (of_nat totalChars / 1000) * fl (5 / 10000))
      in of_int (floor (estimatedCost * 1000000 + 1 / 2)) / 1000000)"

text \<open>The message that the \<^verbatim>\<open>catch\<close> block of \<^verbatim>\<open>rewritePrompt\<close> chooses.\<close>

definition errorMessage :: "string \<Rightarrow> string" where
  "errorMessage message =
     (if str_includes message ''fetch failed''
      then ''Network connection failed - check your internet connection''
      else if str_includes message ''timeout'' then ''Request timed out - please try again''
      else if str_includes message ''API key'' then ''API key is invalid or expired''
      else ''Failed to rewrite prompt'')"

text \<open>The object \<^verbatim>\<open>{ success, error, details, fallback }\<close> of a rewrite that failed.\<close>

record rewrite_failure =
  failure_success :: bool
  error :: string
  details :: string
  fallback :: rewrite_ok

datatype rewrite_result = Ok rewrite_ok | Failure rewrite_failure

definition result_success :: "rewrite_result \<Rightarrow> bool" where
  "result_success r = (case r of Ok x \<Rightarrow> success x | Failure f \<Rightarrow> failure_success f)"

text \<open>
  \<^verbatim>\<open>rewritePrompt(originalPrompt, tone, type)\<close> of the service, with the calls of the
  provider it made, in order; \<open>None\<close> when the probe never settles. The text sent with
  the rewrite call is a fixed instruction, chosen from the tone and the type, followed by
  the prompt; the outcome of the call is the world's, so only the prompt is recorded. The
  caller always passes a tone and a type, so the default parameters do not come into play.
\<close>

definition rewritePrompt :: "gemini_service \<Rightarrow> world \<Rightarrow> string \<Rightarrow> string \<Rightarrow> string
    \<Rightarrow> (rewrite_result \<times> api_call list) option" where
  "rewritePrompt svc w originalPrompt tone type =
     (if \<not> genAI svc \<or> \<not> model_handle svc
      then Some (Ok (getMockResponse originalPrompt tone type (clock_start w) (clock_end w)), [])
      else case testConnection svc w of
        None \<Rightarrow> None
      | Some (connectionTest, calls) \<Rightarrow>
          if \<not> test_success connectionTest
          then Some (Failure \<lparr> failure_success = False,
                       error = ''Failed to connect to Gemini API'',
                       details = (case test_error connectionTest of Some m \<Rightarrow> m | None \<Rightarrow> []),
                       fallback = getMockResponse originalPrompt tone type (clock_start w) (clock_end w) \<rparr>,
                     calls)
          else (case generate w of
                  Resolves rewrittenText \<Rightarrow>
                    Some (Ok \<lparr> success = True,
                               rewrittenPrompt = trim rewrittenText,
                               metadata = \<lparr> processingTime = clock_end w - clock_start w,
                                            model = ''gemini-1.5-flash'',
                                            meta_tone = tone,
                                            meta_type = type,
                                            originalLength = length originalPrompt,
                                            rewrittenLength = length rewrittenText,
                                            apiCost = calculateCost originalPrompt rewrittenText,
                                            meta_note = None \<rparr> \<rparr>,
                          calls @ [GenerateCall originalPrompt])
                | Rejects m \<Rightarrow>
                    Some (Failure \<lparr> failure_success = False,
                                    error = errorMessage m,
                                    details = m,
                                    fallback = getMockResponse originalPrompt tone type (clock_start w) (clock_end w) \<rparr>,
                          calls @ [GenerateCall originalPrompt])
                | Unsettled \<Rightarrow>
                    Some (Failure \<lparr> failure_success = False,
                                    error = errorMessage ''Request timeout after 30 seconds'',
                                    details = ''Request timeout after 30 seconds'',
                                    fallback = getMockResponse originalPrompt tone type (clock_start w) (clock_end w) \<rparr>,
                          calls @ [GenerateCall originalPrompt])))"

section \<open>The Prompt model\<close>

text \<open>
  A stored document of the \<^verbatim>\<open>Prompt\<close> schema. \<open>doc_id\<close> is the \<^verbatim>\<open>_id\<close> of the
  document, \<open>doc_type\<close> its \<^verbatim>\<open>type\<close>; the fields of \<^verbatim>\<open>metadata\<close> carry the prefix
  \<open>stored\<close>, and \<^verbatim>\<open>metadata.wordCount\<close> is the pair \<open>wordCount_original\<close>,
  \<open>wordCount_rewritten\<close>. The schema is strict: a field it does not declare is dropped.
\<close>

record prompt_metadata =
  wordCount_original :: nat
  wordCount_rewritten :: nat
  stored_processingTime :: "int option"
  stored_model :: string
  stored_apiCost :: rat

record prompt_doc =
  doc_id :: nat
  userId :: string
  originalPrompt :: string
  doc_rewrittenPrompt :: string
  doc_tone :: string
  doc_type :: string
  isFavorite :: bool
  timestamp :: int
  doc_metadata :: prompt_metadata

text \<open>The \<^verbatim>\<open>metadata\<close> object handed to \<^verbatim>\<open>new Prompt\<close>, each field present or not.\<close>

record metadata_input =
  in_wordCount_original :: "nat option"
  in_wordCount_rewritten :: "nat option"
  in_processingTime :: "int option"
  in_model :: "string option"
  in_apiCost :: "rat option"

definition empty_metadata :: metadata_input where
  "empty_metadata = \<lparr> in_wordCount_original = None, in_wordCount_rewritten = None,
                        in_processingTime = None, in_model = None, in_apiCost = None \<rparr>"

definition validTones :: "string list" where
  "validTones = [''formal'', ''casual'', ''friendly'', ''professional'', ''creative'', ''concise'']"

definition validTypes :: "string list" where
  "validTypes = [''email'', ''message'', ''explanation'', ''summary'', ''proposal'', ''report'', ''other'']"

text \<open>
  \<^verbatim>\<open>new Prompt({...})\<close>: the setters of the schema trim the three strings declared with
  \<^verbatim>\<open>trim: true\<close>, and the defaults fill what the caller left out. The identifier is
  given when the document is saved.
\<close>

definition new_Prompt :: "string \<Rightarrow> string \<Rightarrow> string \<Rightarrow> string \<Rightarrow> string \<Rightarrow> metadata_input
    \<Rightarrow> int \<Rightarrow> prompt_doc" where
  "new_Prompt uid original rewritten tone type md now =
     \<lparr> doc_id = 0,
       userId = trim uid,
       originalPrompt = trim original,
       doc_rewrittenPrompt = trim rewritten,
       doc_tone = tone,
       doc_type = type,
       isFavorite = False,
       timestamp = now,
       doc_metadata =
         \<lparr> wordCount_original = (case in_wordCount_original md of Some n \<Rightarrow> n | None \<Rightarrow> 0),
           wordCount_rewritten = (case in_wordCount_rewritten md of Some n \<Rightarrow> n | None \<Rightarrow> 0),
           stored_processingTime = in_processingTime md,
           stored_model = (case in_model md of Some m \<Rightarrow> m | None \<Rightarrow> ''gemini-pro''),
           stored_apiCost = (case in_apiCost md of Some c \<Rightarrow> c | None \<Rightarrow> 0) \<rparr> \<rparr>"

text \<open>
  The validation that runs before the hooks of \<^verbatim>\<open>save\<close>: the required strings are not
  empty, the two prompts respect \<^verbatim>\<open>maxlength\<close>, tone and type are in their \<^verbatim>\<open>enum\<close>.
\<close>

definition validate_doc :: "prompt_doc \<Rightarrow> bool" where
  "validate_doc d =
     (userId d \<noteq> [] \<and>
      originalPrompt d \<noteq> [] \<and> length (originalPrompt d) \<le> 5000 \<and>
      doc_rewrittenPrompt d \<noteq> [] \<and> length (doc_rewrittenPrompt d) \<le> 10000 \<and>
      doc_tone d \<in> set validTones \<and>
      doc_type d \<in> set validTypes)"

text \<open>\<^verbatim>\<open>s.split(' ')\<close>: the pieces of \<open>s\<close> between its spaces; \<open>acc\<close> is the piece being read.\<close>

fun split_space :: "string \<Rightarrow> string \<Rightarrow> string list" where
  "split_space acc [] = [rev acc]"
| "split_space acc (c # cs) =
     (if c = CHR '' '' then rev acc # split_space [] cs else split_space (c # acc) cs)"

text \<open>The \<^verbatim>\<open>pre('save')\<close> hook of the schema.\<close>

definition pre_save :: "prompt_doc \<Rightarrow> prompt_doc" where
  "pre_save d =
     (if originalPrompt d \<noteq> [] \<and> doc_rewrittenPrompt d \<noteq> []
      then d\<lparr> doc_metadata := (doc_metadata d)
                \<lparr> wordCount_original := length (split_space [] (originalPrompt d)),
                  wordCount_rewritten := length (split_space [] (doc_rewrittenPrompt d)) \<rparr> \<rparr>
      else d)"

text \<open>
  The collection is the list of its documents, in the order of insertion. The store is
  taken to be reachable: the one failure of \<^verbatim>\<open>save\<close> in the model is the validation.
\<close>

type_synonym store = "prompt_doc list"

datatype store_error = ValidationError | QueryError

definition fresh_id :: "store \<Rightarrow> nat" where
  "fresh_id db = Suc (fold max (map doc_id db) 0)"

definition save :: "store \<Rightarrow> prompt_doc \<Rightarrow> store_error + (prompt_doc \<times> store)" where
  "save db d =
     (if \<not> validate_doc d then Inl ValidationError
      else let d' = (pre_save d)\<lparr> doc_id := fresh_id db \<rparr> in Inr (d', db @ [d']))"

section \<open>The controller: rewriting\<close>

text \<open>
  A value of the request body. Numbers are the integers; \<open>JObject\<close> is any object or
  array. The tone, the type and the user of a request are taken to be strings when present.
\<close>

datatype jsval = JUndefined | JNull | JBool bool | JNum int | JStr string | JObject

fun truthy :: "jsval \<Rightarrow> bool" where
  "truthy JUndefined = False"
| "truthy JNull = False"
| "truthy (JBool b) = b"
| "truthy (JNum n) = (n \<noteq> 0)"
| "truthy (JStr s) = (s \<noteq> [])"
| "truthy JObject = True"

record rewrite_request =
  req_prompt :: jsval
  req_tone :: "string option"
  req_type :: "string option"
  req_userId :: "string option"

record error_body =
  status :: nat
  err_error :: string
  err_message :: string

fun join :: "string \<Rightarrow> string list \<Rightarrow> string" where
  "join sep [] = []"
| "join sep [x] = x"
| "join sep (x # y # ys) = x @ sep @ join sep (y # ys)"

text \<open>The middleware \<^verbatim>\<open>validateRewriteRequest\<close>: the response it sends, or \<open>None\<close> for \<^verbatim>\<open>next()\<close>.\<close>

definition validateRewriteRequest :: "rewrite_request \<Rightarrow> error_body option" where
  "validateRewriteRequest req =
     (if \<not> truthy (req_prompt req) \<or> (case req_prompt req of JStr _ \<Rightarrow> False | _ \<Rightarrow> True)
      then Some \<lparr> status = 400, err_error = ''Invalid prompt'',
                  err_message = ''Prompt must be a non-empty string'' \<rparr>
      else if (case req_tone req of Some t \<Rightarrow> t \<noteq> [] \<and> t \<notin> set validTones | None \<Rightarrow> False)
      then Some \<lparr> status = 400, err_error = ''Invalid tone'',
                  err_message = ''Tone must be one of: '' @ join '', '' validTones \<rparr>
      else if (case req_type req of Some t \<Rightarrow> t \<noteq> [] \<and> t \<notin> set validTypes | None \<Rightarrow> False)
      then Some \<lparr> status = 400, err_error = ''Invalid type'',
                  err_message = ''Type must be one of: '' @ join '', '' validTypes \<rparr>
      else None)"

record rewrite_data =
  data_originalPrompt :: string
  data_rewrittenPrompt :: string
  data_tone :: string
  data_type :: string
  data_metadata :: rewrite_metadata
  historyId :: "nat option"
  savedToHistory :: "bool option"

text \<open>
  The responses of \<^verbatim>\<open>POST /rewrite\<close>: a rejection with its body, the failure of the
  service (message, details, fallback), the rewrite, and an exception that reached the
  global error handler.
\<close>

datatype rewrite_response =
    ClientError error_body
  | AiServiceError string string rewrite_ok
  | RewriteSuccess rewrite_data
  | UncaughtError string

fun response_status :: "rewrite_response \<Rightarrow> nat" where
  "response_status (ClientError e) = status e"
| "response_status (AiServiceError m d f) = 500"
| "response_status (RewriteSuccess d) = 200"
| "response_status (UncaughtError m) = 500"

text \<open>What a request leaves behind: the response, the collection, the calls of the provider.\<close>

record rewrite_outcome =
  response :: rewrite_response
  store_after :: store
  api_calls :: "api_call list"

text \<open>The metadata of a rewrite as \<^verbatim>\<open>new Prompt\<close> reads it: the declared fields only.\<close>

definition metadata_of_result :: "rewrite_metadata \<Rightarrow> metadata_input" where
  "metadata_of_result m =
     \<lparr> in_wordCount_original = None, in_wordCount_rewritten = None,
       in_processingTime = Some (processingTime m), in_model = Some (model m),
       in_apiCost = Some (apiCost m) \<rparr>"

text \<open>
  \<^verbatim>\<open>PromptController.rewritePrompt\<close>, from the point where the prompt is known to be
  a non-empty string; \<open>None\<close> when the service never returns.
\<close>

definition rewrite_string_prompt :: "gemini_service \<Rightarrow> world \<Rightarrow> store \<Rightarrow> string \<Rightarrow> string
    \<Rightarrow> string \<Rightarrow> string option \<Rightarrow> rewrite_outcome option" where
  "rewrite_string_prompt svc w db prompt tone type uid_opt =
     (if length (trim prompt) = 0
      then Some \<lparr> response = ClientError \<lparr> status = 400, err_error = ''Prompt is required'',
                                err_message = ''Please provide a prompt to rewrite'' \<rparr>,
                  store_after = db, api_calls = [] \<rparr>
      else if length prompt > 5000
      then Some \<lparr> response = ClientError \<lparr> status = 400, err_error = ''Prompt too long'',
                                err_message = ''Prompt must be less than 5000 characters'' \<rparr>,
                  store_after = db, api_calls = [] \<rparr>
      else case rewritePrompt svc w (trim prompt) tone type of
        None \<Rightarrow> None
      | Some (Failure f, calls) \<Rightarrow>
          Some \<lparr> response = AiServiceError (error f) (details f) (fallback f),
                 store_after = db, api_calls = calls \<rparr>
      | Some (Ok r, calls) \<Rightarrow>
          (let data = \<lparr> data_originalPrompt = trim prompt,
                        data_rewrittenPrompt = rewrittenPrompt r,
                        data_tone = tone, data_type = type,
                        data_metadata = metadata r,
                        historyId = None, savedToHistory = None \<rparr>
           in case uid_opt of
                None \<Rightarrow> Some \<lparr> response = RewriteSuccess data, store_after = db, api_calls = calls \<rparr>
              | Some uid \<Rightarrow>
                  if uid = []
                  then Some \<lparr> response = RewriteSuccess data, store_after = db, api_calls = calls \<rparr>
                  else (case save db (new_Prompt uid (trim prompt) (rewrittenPrompt r) tone type
                                        (metadata_of_result (metadata r)) (clock_end w)) of
                          Inr (savedItem, db') \<Rightarrow>
                            Some \<lparr> response = RewriteSuccess
                                     (data\<lparr> historyId := Some (doc_id savedItem), savedToHistory := Some True \<rparr>),
                                   store_after = db', api_calls = calls \<rparr>
                        | Inl e \<Rightarrow>
                            Some \<lparr> response = RewriteSuccess (data\<lparr> savedToHistory := Some False \<rparr>),
                                   store_after = db, api_calls = calls \<rparr>)))"

text \<open>
  \<^verbatim>\<open>PromptController.rewritePrompt\<close>. A falsy prompt is rejected; on a truthy value that
  is not a string, \<^verbatim>\<open>prompt.trim\<close> is not a function and the exception goes to the
  global error handler.
\<close>

definition controller_rewritePrompt :: "gemini_service \<Rightarrow> world \<Rightarrow> store \<Rightarrow> rewrite_request
    \<Rightarrow> rewrite_outcome option" where
  "controller_rewritePrompt svc w db req =
     (let tone = (case req_tone req of Some t \<Rightarrow> t | None \<Rightarrow> ''professional'');
          type = (case req_type req of Some t \<Rightarrow> t | None \<Rightarrow> ''other'')
      in
      if \<not> truthy (req_prompt req)
      then Some \<lparr> response = ClientError \<lparr> status = 400, err_error = ''Prompt is required'',
                                err_message = ''Please provide a prompt to rewrite'' \<rparr>,
                  store_after = db, api_calls = [] \<rparr>
      else case req_prompt req of
             JStr prompt \<Rightarrow> rewrite_string_prompt svc w db prompt tone type (req_userId req)
           | _ \<Rightarrow> Some \<lparr> response = UncaughtError ''prompt.trim is not a function'',
                         store_after = db, api_calls = [] \<rparr>)"

text \<open>The route \<^verbatim>\<open>POST /rewrite\<close>: the middleware, then the controller.\<close>

definition post_rewrite :: "gemini_service \<Rightarrow> world \<Rightarrow> store \<Rightarrow> rewrite_request \<Rightarrow> rewrite_outcome option" where
  "post_rewrite svc w db req =
     (case validateRewriteRequest req of
        Some e \<Rightarrow> Some \<lparr> response = ClientError e, store_after = db, api_calls = [] \<rparr>
      | None \<Rightarrow> controller_rewritePrompt svc w db req)"

section \<open>The store: queries\<close>

text \<open>
  The store matches \<^verbatim>\<open>{ $regex: search, $options: 'i' }\<close> with its regular-expression
  engine. For the patterns made of ordinary characters and the dot the engine is modelled:
  an ordinary character matches itself and its other case, the dot any character but the
  line feed, and the pattern may match anywhere in the subject. The case is that of the
  letters \<^verbatim>\<open>A\<close> to \<^verbatim>\<open>Z\<close>. What the engine does with a pattern that has another
  metacharacter is a parameter, \<open>other\<close>: the matcher it compiles the pattern to, or
  \<open>None\<close> when it refuses the pattern.
\<close>

definition upper_letters :: string where
  "upper_letters = ''ABCDEFGHIJKLMNOPQRSTUVWXYZ''"

definition lower_letters :: string where
  "lower_letters = ''abcdefghijklmnopqrstuvwxyz''"

definition other_case :: "char \<Rightarrow> char" where
  "other_case c =
     (case map_of (zip upper_letters lower_letters) c of
        Some l \<Rightarrow> l
      | None \<Rightarrow> (case map_of (zip lower_letters upper_letters) c of Some u \<Rightarrow> u | None \<Rightarrow> c))"

definition other_metacharacters :: "char list" where
  "other_metacharacters = CHR 0x5C # ''^$|?*+()[]{}''"

datatype rx_atom = RxLit char | RxAny

fun parse_pattern :: "string \<Rightarrow> rx_atom list option" where
  "parse_pattern [] = Some []"
| "parse_pattern (c # cs) =
     (if c \<in> set other_metacharacters then None
      else case parse_pattern cs of
             None \<Rightarrow> None
           | Some as \<Rightarrow> Some ((if c = CHR ''.'' then RxAny else RxLit c) # as))"

fun atom_matches :: "rx_atom \<Rightarrow> char \<Rightarrow> bool" where
  "atom_matches (RxLit c) x = (x = c \<or> x = other_case c)"
| "atom_matches RxAny x = (x \<noteq> CHR 0x0A)"

fun match_here :: "rx_atom list \<Rightarrow> string \<Rightarrow> bool" where
  "match_here [] s = True"
| "match_here (a # as) [] = False"
| "match_here (a # as) (x # xs) = (atom_matches a x \<and> match_here as xs)"

fun regex_search :: "rx_atom list \<Rightarrow> string \<Rightarrow> bool" where
  "regex_search as [] = match_here as []"
| "regex_search as (x # xs) = (match_here as (x # xs) \<or> regex_search as xs)"

type_synonym matcher = "string \<Rightarrow> bool"

type_synonym regex_engine = "string \<Rightarrow> matcher option"

definition compile_pattern :: "regex_engine \<Rightarrow> string \<Rightarrow> matcher option" where
  "compile_pattern other p =
     (case parse_pattern p of Some rx \<Rightarrow> Some (regex_search rx) | None \<Rightarrow> other p)"

text \<open>
  A query object: each condition present or not. \<open>q_search\<close> is the pattern of the
  \<^verbatim>\<open>$or\<close> of the two \<^verbatim>\<open>$regex\<close> conditions, on \<^verbatim>\<open>originalPrompt\<close> and on
  \<^verbatim>\<open>rewrittenPrompt\<close>.
\<close>

record query =
  q_id :: "nat option"
  q_userId :: "string option"
  q_type :: "string option"
  q_tone :: "string option"
  q_search :: "string option"
  q_isFavorite :: "bool option"

text \<open>
  The store casts a filter against the schema before it runs it, and the cast applies the
  setters of the schema: the \<^verbatim>\<open>userId\<close> of a filter is trimmed, as \<^verbatim>\<open>trim: true\<close> says.
\<close>

definition cast_filter :: "query \<Rightarrow> query" where
  "cast_filter q = q\<lparr> q_userId := map_option trim (q_userId q) \<rparr>"

definition holds :: "'a option \<Rightarrow> ('a \<Rightarrow> bool) \<Rightarrow> bool" where
  "holds cond p = (case cond of None \<Rightarrow> True | Some v \<Rightarrow> p v)"

text \<open>The conditions of a filter on the fields, the search apart.\<close>

definition matches :: "query \<Rightarrow> prompt_doc \<Rightarrow> bool" where
  "matches q d =
     (holds (q_id q) (\<lambda>i. doc_id d = i) \<and>
      holds (q_userId q) (\<lambda>u. userId d = u) \<and>
      holds (q_type q) (\<lambda>t. doc_type d = t) \<and>
      holds (q_tone q) (\<lambda>t. doc_tone d = t) \<and>
      holds (q_isFavorite q) (\<lambda>b. isFavorite d = b))"

text \<open>The documents that a filter selects; \<open>None\<close> when the engine refuses the pattern.\<close>

definition selector :: "regex_engine \<Rightarrow> query \<Rightarrow> (prompt_doc \<Rightarrow> bool) option" where
  "selector other q =
     (case q_search q of
        None \<Rightarrow> Some (matches (cast_filter q))
      | Some p \<Rightarrow>
          (case compile_pattern other p of
             None \<Rightarrow> None
           | Some m \<Rightarrow> Some (\<lambda>d. matches (cast_filter q) d
                                \<and> (m (originalPrompt d) \<or> m (doc_rewrittenPrompt d)))))"











section \<open>The controller: history\<close>

text \<open>
  A request that does not succeed is answered by the controller or a middleware, with a
  body of its own, or by the global error handler, with a status and the message of the
  error that the library raised (the model does not hold that message).
\<close>

datatype failure = Refused error_body | HandlerError nat





text \<open>A condition that the controller adds only for a truthy parameter.\<close>

definition if_truthy :: "string option \<Rightarrow> string option" where
  "if_truthy p = (case p of None \<Rightarrow> None | Some v \<Rightarrow> if v = [] then None else Some v)"











text \<open>
  \<^verbatim>\<open>findOneAndDelete(query)\<close>: the first document that the filter selects is removed and
  returned.
\<close>

fun delete_first :: "(prompt_doc \<Rightarrow> bool) \<Rightarrow> store \<Rightarrow> prompt_doc option \<times> store" where
  "delete_first sel [] = (None, [])"
| "delete_first sel (d # ds) =
     (if sel d then (Some d, ds)
      else (case delete_first sel ds of (r, ds') \<Rightarrow> (r, d # ds')))"

definition findOneAndDelete :: "regex_engine \<Rightarrow> store \<Rightarrow> query
    \<Rightarrow> store_error + (prompt_doc option \<times> store)" where
  "findOneAndDelete other db q =
     (case selector other q of None \<Rightarrow> Inl QueryError | Some sel \<Rightarrow> Inr (delete_first sel db))"

datatype delete_response = DeleteNotFound error_body | DeleteOk nat | DeleteFailure failure

text \<open>
  \<^verbatim>\<open>DELETE /history/:id\<close>, for an identifier of the store's format: \<^verbatim>\<open>deleteHistoryItem\<close>
  with the \<^verbatim>\<open>userId\<close> of the query string, present or not. The owner joins the filter
  when it is truthy.
\<close>

definition deleteHistoryItem :: "regex_engine \<Rightarrow> store \<Rightarrow> nat \<Rightarrow> string option
    \<Rightarrow> delete_response \<times> store" where
  "deleteHistoryItem other db i uid_opt =
     (case findOneAndDelete other db \<lparr> q_id = Some i, q_userId = if_truthy uid_opt, q_type = None,
                                        q_tone = None, q_search = None, q_isFavorite = None \<rparr> of
        Inl e \<Rightarrow> (DeleteFailure (HandlerError 500), db)
      | Inr (None, db') \<Rightarrow>
          (DeleteNotFound \<lparr> status = 404, err_error = ''History item not found'',
              err_message = ''The requested history item does not exist or you do not have permission to delete it'' \<rparr>,
           db')
      | Inr (Some deletedItem, db') \<Rightarrow> (DeleteOk i, db'))"

text \<open>
  \<^verbatim>\<open>POST /history\<close>: \<^verbatim>\<open>saveToHistory\<close>. The three required fields and the tone and the type
  are strings when present; a validation error goes to the global error handler, which
  answers with the status 400.
\<close>

record history_request =
  hr_userId :: "string option"
  hr_originalPrompt :: "string option"
  hr_rewrittenPrompt :: "string option"
  hr_tone :: "string option"
  hr_type :: "string option"
  hr_metadata :: "metadata_input option"

definition saveToHistory :: "store \<Rightarrow> int \<Rightarrow> history_request \<Rightarrow> (failure + prompt_doc) \<times> store" where
  "saveToHistory db now req =
     (case (if_truthy (hr_userId req), if_truthy (hr_originalPrompt req), if_truthy (hr_rewrittenPrompt req)) of
        (Some uid, Some original, Some rewritten) \<Rightarrow>
          (case save db (new_Prompt uid original rewritten
                           (case if_truthy (hr_tone req) of Some t \<Rightarrow> t | None \<Rightarrow> ''professional'')
                           (case if_truthy (hr_type req) of Some t \<Rightarrow> t | None \<Rightarrow> ''other'')
                           (case hr_metadata req of Some m \<Rightarrow> m | None \<Rightarrow> empty_metadata) now) of
             Inr (savedItem, db') \<Rightarrow> (Inr savedItem, db')
           | Inl e \<Rightarrow> (Inl (HandlerError 400), db))
      | _ \<Rightarrow> (Inl (Refused \<lparr> status = 400, err_error = ''Missing required fields'',
                    err_message = ''userId, originalPrompt, and rewrittenPrompt are required'' \<rparr>), db))"

section \<open>The notions of the specification\<close>

text \<open>
  The words of a text, as the specification counts them: the maximal runs of characters
  that are not white space. \<open>acc\<close> is the word being read.
\<close>

fun ws_words :: "string \<Rightarrow> string \<Rightarrow> string list" where
  "ws_words acc [] = (if acc = [] then [] else [rev acc])"
| "ws_words acc (c # cs) =
     (if is_space c then (if acc = [] then ws_words [] cs else rev acc # ws_words [] cs)
      else ws_words (c # acc) cs)"

definition spec_word_count :: "string \<Rightarrow> nat" where
  "spec_word_count s = length (ws_words [] s)"




section \<open>Sample documents\<close>

text \<open>A stored document with the defaults of the schema, for the examples below.\<close>

definition sample_doc :: "nat \<Rightarrow> string \<Rightarrow> string \<Rightarrow> string \<Rightarrow> bool \<Rightarrow> prompt_doc" where
  "sample_doc i uid original rewritten fav =
     (pre_save (new_Prompt uid original rewritten ''professional'' ''other'' empty_metadata 0))
       \<lparr> doc_id := i, isFavorite := fav \<rparr>"


section \<open>Properties of the fallback text\<close>

lemma add_punctuation_terminal: "ends_with_terminal (add_punctuation s)"
  by (simp add: add_punctuation_def ends_with_terminal_def)

lemma add_punctuation_nonempty: "add_punctuation s \<noteq> []"
  by (auto simp: add_punctuation_def ends_with_terminal_def)

lemma tone_modification_terminal:
  "ends_with_terminal s \<Longrightarrow> s \<noteq> [] \<Longrightarrow> ends_with_terminal (tone_modification tone s)"
  by (cases s rule: rev_cases) (simp_all add: tone_modification_def ends_with_terminal_def)

lemma tone_modification_nonempty: "s \<noteq> [] \<Longrightarrow> tone_modification tone s \<noteq> []"
  by (simp add: tone_modification_def)

lemma type_modification_nonempty: "s \<noteq> [] \<Longrightarrow> type_modification type s \<noteq> []"
  by (simp add: type_modification_def)

lemma mockRewritten_nonempty: "mockRewritten p tone type \<noteq> []"
  by (simp add: mockRewritten_def type_modification_nonempty tone_modification_nonempty
      add_punctuation_nonempty)

lemma basic_improvements_empty: "basic_improvements [] = []"
  by (simp add: basic_improvements_def trim_def)

lemma mockRewritten_hello_world:
  "mockRewritten ''hello   world'' ''professional'' ''other'' = ''hello world.''"
  by code_simp

lemma trim_hello_world: "trim ''hello   world'' = ''hello   world''"
  by code_simp

lemma unconfigured_service:
  "(case key of None \<Rightarrow> True | Some k \<Rightarrow> \<not> startsWith k ''AIza'')
   \<Longrightarrow> initializeService key sdk_ok = \<lparr> genAI = False, model_handle = False \<rparr>"
  by (simp add: initializeService_def split: option.splits)

text \<open>
  Claim C3, as amended. For the prompt \<^verbatim>\<open>hello   world\<close> with the tone unset and the
  client never configured, the fallback collapses the white space and appends the full
  stop, and leaves the first letter as it is: the text is \<^verbatim>\<open>hello world.\<close>, through the
  service and through the route \<^verbatim>\<open>POST /rewrite\<close>, which resolves the tone to
  \<^verbatim>\<open>professional\<close> and calls no provider.
\<close>

theorem C3_fallback_hello_world:
  "rewrittenPrompt (getMockResponse ''hello   world'' ''professional'' ''other'' t0 t1) = ''hello world.''
   \<and> (\<exists>out d. post_rewrite (initializeService None sdk_ok) w db
          \<lparr> req_prompt = JStr ''hello   world'', req_tone = None, req_type = None, req_userId = None \<rparr>
          = Some out
        \<and> response out = RewriteSuccess d
        \<and> data_tone d = ''professional''
        \<and> data_rewrittenPrompt d = ''hello world.''
        \<and> api_calls out = [])"
proof -
  have a: "rewrittenPrompt (getMockResponse ''hello   world'' ''professional'' ''other'' t0 t1) = ''hello world.''"
    by (simp add: getMockResponse_def mockRewritten_hello_world)
  have v: "validateRewriteRequest
      \<lparr> req_prompt = JStr ''hello   world'', req_tone = None, req_type = None, req_userId = None \<rparr> = None"
    by (simp add: validateRewriteRequest_def)
  have s: "rewritePrompt (initializeService None sdk_ok) w ''hello   world'' ''professional'' ''other''
      = Some (Ok (getMockResponse ''hello   world'' ''professional'' ''other'' (clock_start w) (clock_end w)), [])"
    by (simp add: rewritePrompt_def initializeService_def)
  have "\<exists>out d. post_rewrite (initializeService None sdk_ok) w db
          \<lparr> req_prompt = JStr ''hello   world'', req_tone = None, req_type = None, req_userId = None \<rparr>
          = Some out
        \<and> response out = RewriteSuccess d
        \<and> data_tone d = ''professional''
        \<and> data_rewrittenPrompt d = ''hello world.''
        \<and> api_calls out = []"
    unfolding post_rewrite_def v
    by (simp add: controller_rewritePrompt_def rewrite_string_prompt_def trim_hello_world s Let_def
        getMockResponse_def mockRewritten_hello_world)
  with a show ?thesis by blast
qed

text \<open>The theorem of C3 at one reading of the clock.\<close>

theorem C3_fallback_hello_world_witness:
  "length (rewrittenPrompt (getMockResponse ''hello   world'' ''professional'' ''other'' 0 7)) = 12"
  using C3_fallback_hello_world [of 0 7 True
      "\<lparr> probe = Unsettled, generate = Unsettled, clock_start = 0, clock_end = 7 \<rparr>" "[]"]
  by simp

text \<open>The text claimed by C3, with a capital first letter, is not what the fallback returns.\<close>

theorem C3_capitalised_counterexample:
  "rewrittenPrompt (getMockResponse ''hello   world'' ''professional'' ''other'' 0 7) \<noteq> ''Hello world.''"
  by (simp add: getMockResponse_def mockRewritten_hello_world)

text \<open>
  Claim C4, as amended. For every text and tone, and every type other than \<^verbatim>\<open>email\<close>,
  the fallback text ends in one of \<^verbatim>\<open>. ! ?\<close>. For the type \<^verbatim>\<open>email\<close> the text is the
  fixed template around the text of the same prompt and tone without the template, which
  ends in one of \<^verbatim>\<open>. ! ?\<close>; the template ends in the signature placeholder
  \<^verbatim>\<open>[Your Name]\<close>, so the whole text does not end in terminal punctuation.
\<close>

theorem C4_fallback_ends_in_punctuation:
  "(type \<noteq> ''email'' \<longrightarrow> ends_with_terminal (mockRewritten p tone type))
   \<and> (type = ''email'' \<longrightarrow>
        mockRewritten p tone type
          = ''Subject: Request for Assistance'' @ [CHR 0x0A, CHR 0x0A] @ ''Dear [Recipient],''
            @ [CHR 0x0A, CHR 0x0A] @ mockRewritten p tone ''other'' @ [CHR 0x0A, CHR 0x0A]
            @ ''Best regards,'' @ [CHR 0x0A] @ ''[Your Name]''
        \<and> ends_with_terminal (mockRewritten p tone ''other'')
        \<and> \<not> ends_with_terminal (mockRewritten p tone type))"
proof (intro conjI impI)
  assume "type \<noteq> ''email''"
  then show "ends_with_terminal (mockRewritten p tone type)"
    by (simp add: mockRewritten_def type_modification_def tone_modification_terminal
        add_punctuation_terminal add_punctuation_nonempty)
next
  assume "type = ''email''"
  then show "mockRewritten p tone type
          = ''Subject: Request for Assistance'' @ [CHR 0x0A, CHR 0x0A] @ ''Dear [Recipient],''
            @ [CHR 0x0A, CHR 0x0A] @ mockRewritten p tone ''other'' @ [CHR 0x0A, CHR 0x0A]
            @ ''Best regards,'' @ [CHR 0x0A] @ ''[Your Name]''"
    by (simp add: mockRewritten_def type_modification_def)
next
  assume "type = ''email''"
  show "ends_with_terminal (mockRewritten p tone ''other'')"
    by (simp add: mockRewritten_def type_modification_def tone_modification_terminal
        add_punctuation_terminal add_punctuation_nonempty)
next
  assume "type = ''email''"
  then show "\<not> ends_with_terminal (mockRewritten p tone type)"
    by (simp add: mockRewritten_def type_modification_def ends_with_terminal_def)
qed

text \<open>The theorem of C4 at a friendly report and at a friendly email.\<close>

theorem C4_fallback_ends_in_punctuation_witness:
  "ends_with_terminal (mockRewritten ''i need help'' ''friendly'' ''report'')
   \<and> mockRewritten ''i need help'' ''friendly'' ''email''
       = ''Subject: Request for Assistance'' @ [CHR 0x0A, CHR 0x0A] @ ''Dear [Recipient],''
         @ [CHR 0x0A, CHR 0x0A] @ mockRewritten ''i need help'' ''friendly'' ''other''
         @ [CHR 0x0A, CHR 0x0A] @ ''Best regards,'' @ [CHR 0x0A] @ ''[Your Name]''
   \<and> \<not> ends_with_terminal (mockRewritten ''i need help'' ''friendly'' ''email'')"
proof -
  have r: "''report'' \<noteq> ''email''"
    by simp
  note a = C4_fallback_ends_in_punctuation [of "''report''" "''i need help''" "''friendly''",
      THEN conjunct1, THEN mp, OF r]
  note b = C4_fallback_ends_in_punctuation [of "''email''" "''i need help''" "''friendly''",
      THEN conjunct2, THEN mp, OF refl]
  from a b show ?thesis by blast
qed

text \<open>C4 as stated fails for the type \<^verbatim>\<open>email\<close>: the text ends in \<^verbatim>\<open>]\<close>.\<close>

theorem C4_email_counterexample:
  "\<not> ends_with_terminal (mockRewritten ''hello'' ''professional'' ''email'')"
  by (simp add: mockRewritten_def type_modification_def ends_with_terminal_def)

text \<open>
  Claim C10. The fallback is a total function (structural recursion over the text) and
  its text is never empty; on the empty text, with a tone that adds no wrapper and a type
  other than \<^verbatim>\<open>email\<close>, it is exactly the full stop.
\<close>

theorem C10_fallback_nonempty:
  "mockRewritten p tone type \<noteq> [] \<and>
   (tone \<notin> {''formal'', ''friendly'', ''casual''} \<and> type \<noteq> ''email''
      \<longrightarrow> mockRewritten [] tone type = ''.'')"
proof -
  have "mockRewritten [] tone type = ''.''"
    if "tone \<notin> {''formal'', ''friendly'', ''casual''}" "type \<noteq> ''email''"
    using that
    by (simp add: mockRewritten_def type_modification_def tone_modification_def
        add_punctuation_def basic_improvements_empty ends_with_terminal_def)
  then show ?thesis by (simp add: mockRewritten_nonempty)
qed

text \<open>The theorem of C10 at the empty text, without and with the wrappers.\<close>

theorem C10_fallback_nonempty_witness:
  "mockRewritten [] ''concise'' ''summary'' = ''.'' \<and> mockRewritten [] ''formal'' ''email'' \<noteq> []"
  using C10_fallback_nonempty [of "[]" "''concise''" "''summary''"]
    C10_fallback_nonempty [of "[]" "''formal''" "''email''"]
  by simp

text \<open>
  Claim C5, as amended. When the key is missing or does not start with \<^verbatim>\<open>AIza\<close>, the
  rewrite returns at once the fallback as a successful result, with the model
  \<^verbatim>\<open>mock-gemini\<close> and the cost 0, and makes no call of the provider.
\<close>

theorem C5_unconfigured_client_returns_mock:
  assumes "case key of None \<Rightarrow> True | Some k \<Rightarrow> \<not> startsWith k ''AIza''"
  shows "rewritePrompt (initializeService key sdk_ok) w p tone type
           = Some (Ok (getMockResponse p tone type (clock_start w) (clock_end w)), [])
         \<and> success (getMockResponse p tone type (clock_start w) (clock_end w)) = True
         \<and> rewrittenPrompt (getMockResponse p tone type (clock_start w) (clock_end w))
             = mockRewritten p tone type
         \<and> model (metadata (getMockResponse p tone type (clock_start w) (clock_end w))) = ''mock-gemini''
         \<and> apiCost (metadata (getMockResponse p tone type (clock_start w) (clock_end w))) = 0"
  by (simp add: unconfigured_service [OF assms] rewritePrompt_def getMockResponse_def)

text \<open>The theorem of C5 at a key of the wrong format, in a world where the provider would answer.\<close>

theorem C5_unconfigured_client_returns_mock_witness:
  "rewritePrompt (initializeService (Some ''sk-123'') True)
       \<lparr> probe = Resolves ''ok'', generate = Resolves ''text'', clock_start = 3, clock_end = 4 \<rparr>
       ''fix this'' ''casual'' ''message''
     = Some (Ok (getMockResponse ''fix this'' ''casual'' ''message'' 3 4), [])
   \<and> model (metadata (getMockResponse ''fix this'' ''casual'' ''message'' 3 4)) = ''mock-gemini''"
proof -
  have h: "case Some ''sk-123'' of None \<Rightarrow> True | Some k \<Rightarrow> \<not> startsWith k ''AIza''"
    by (simp add: startsWith_def)
  show ?thesis
    using C5_unconfigured_client_returns_mock [OF h, of True
        "\<lparr> probe = Resolves ''ok'', generate = Resolves ''text'', clock_start = 3, clock_end = 4 \<rparr>"
        "''fix this''" "''casual''" "''message''"]
    by simp
qed

text \<open>C5 as stated fails on the model name: it is not \<^verbatim>\<open>mock\<close>.\<close>

theorem C5_model_name_counterexample:
  "rewritePrompt (initializeService None True)
       \<lparr> probe = Unsettled, generate = Unsettled, clock_start = 0, clock_end = 0 \<rparr>
       ''hi'' ''professional'' ''other''
     = Some (Ok (getMockResponse ''hi'' ''professional'' ''other'' 0 0), [])
   \<and> model (metadata (getMockResponse ''hi'' ''professional'' ''other'' 0 0)) \<noteq> ''mock''"
  by (simp add: rewritePrompt_def initializeService_def getMockResponse_def)

section \<open>Properties of the service and of the rewrite route\<close>

lemma errorMessage_classes:
  "errorMessage m \<in> set [''Network connection failed - check your internet connection'',
      ''Request timed out - please try again'', ''API key is invalid or expired'',
      ''Failed to rewrite prompt'']"
  by (simp add: errorMessage_def)

lemma errorMessage_timeout:
  "errorMessage ''Request timeout after 30 seconds'' = ''Request timed out - please try again''"
  by code_simp

lemma rewritePrompt_probe_rejects:
  "genAI svc \<Longrightarrow> model_handle svc \<Longrightarrow> probe w = Rejects m \<Longrightarrow>
   rewritePrompt svc w p tone type
     = Some (Failure \<lparr> failure_success = False, error = ''Failed to connect to Gemini API'',
                       details = m,
                       fallback = getMockResponse p tone type (clock_start w) (clock_end w) \<rparr>,
             [ProbeCall])"
  by (simp add: rewritePrompt_def testConnection_def)

lemma rewritePrompt_generate_rejects:
  "genAI svc \<Longrightarrow> model_handle svc \<Longrightarrow> probe w = Resolves t \<Longrightarrow> generate w = Rejects m \<Longrightarrow>
   rewritePrompt svc w p tone type
     = Some (Failure \<lparr> failure_success = False, error = errorMessage m, details = m,
                       fallback = getMockResponse p tone type (clock_start w) (clock_end w) \<rparr>,
             [ProbeCall, GenerateCall p])"
  by (simp add: rewritePrompt_def testConnection_def)

lemma rewritePrompt_generate_times_out:
  "genAI svc \<Longrightarrow> model_handle svc \<Longrightarrow> probe w = Resolves t \<Longrightarrow> generate w = Unsettled \<Longrightarrow>
   rewritePrompt svc w p tone type
     = Some (Failure \<lparr> failure_success = False, error = ''Request timed out - please try again'',
                       details = ''Request timeout after 30 seconds'',
                       fallback = getMockResponse p tone type (clock_start w) (clock_end w) \<rparr>,
             [ProbeCall, GenerateCall p])"
  by (simp add: rewritePrompt_def testConnection_def errorMessage_timeout)

lemma rewritePrompt_failure_shape:
  assumes "rewritePrompt svc w p tone type = Some (r, calls)" and "\<not> result_success r"
  shows "\<exists>f. r = Failure f \<and> failure_success f = False
           \<and> fallback f = getMockResponse p tone type (clock_start w) (clock_end w)
           \<and> (error f = ''Failed to connect to Gemini API'' \<and> probe w = Rejects (details f) \<and> calls = [ProbeCall]
                \<or> error f = errorMessage (details f) \<and> calls = [ProbeCall, GenerateCall p])"
  using assms
  by (auto simp: rewritePrompt_def testConnection_def result_success_def getMockResponse_def
      split: if_splits api_outcome.splits)

text \<open>
  Claim C2, as amended. With a configured client, every failure gives a result with
  \<^verbatim>\<open>success = false\<close>, the raw message of the failure as details, and the fallback of the
  same prompt, tone and type. When the probe fails, the message is the fixed
  \<^verbatim>\<open>Failed to connect to Gemini API\<close>; when the rewrite call fails or runs into the timer,
  the message is chosen by the substrings of the failure message, among four messages
  (network, timeout, key, unknown). Every returned result that is not a success has this
  shape.
\<close>

theorem C2_rewrite_failure_result:
  "(genAI svc \<and> model_handle svc \<and> probe w = Rejects m \<longrightarrow>
      rewritePrompt svc w p tone type
        = Some (Failure \<lparr> failure_success = False, error = ''Failed to connect to Gemini API'',
                          details = m,
                          fallback = getMockResponse p tone type (clock_start w) (clock_end w) \<rparr>,
                [ProbeCall]))
   \<and> (genAI svc \<and> model_handle svc \<and> probe w = Resolves t \<and> generate w = Rejects m \<longrightarrow>
      rewritePrompt svc w p tone type
        = Some (Failure \<lparr> failure_success = False, error = errorMessage m, details = m,
                          fallback = getMockResponse p tone type (clock_start w) (clock_end w) \<rparr>,
                [ProbeCall, GenerateCall p]))
   \<and> (genAI svc \<and> model_handle svc \<and> probe w = Resolves t \<and> generate w = Unsettled \<longrightarrow>
      rewritePrompt svc w p tone type
        = Some (Failure \<lparr> failure_success = False, error = ''Request timed out - please try again'',
                          details = ''Request timeout after 30 seconds'',
                          fallback = getMockResponse p tone type (clock_start w) (clock_end w) \<rparr>,
                [ProbeCall, GenerateCall p]))
   \<and> errorMessage m \<in> set [''Network connection failed - check your internet connection'',
        ''Request timed out - please try again'', ''API key is invalid or expired'',
        ''Failed to rewrite prompt'']
   \<and> (\<forall>r calls. rewritePrompt svc w p tone type = Some (r, calls) \<and> \<not> result_success r \<longrightarrow>
        (\<exists>f. r = Failure f \<and> failure_success f = False
           \<and> fallback f = getMockResponse p tone type (clock_start w) (clock_end w)
           \<and> rewrittenPrompt (fallback f) = mockRewritten p tone type
           \<and> (error f = ''Failed to connect to Gemini API'' \<or> error f = errorMessage (details f))))"
proof (intro conjI impI allI)
  fix r calls
  assume "rewritePrompt svc w p tone type = Some (r, calls) \<and> \<not> result_success r"
  then obtain f where "r = Failure f" "failure_success f = False"
      "fallback f = getMockResponse p tone type (clock_start w) (clock_end w)"
      "error f = ''Failed to connect to Gemini API'' \<or> error f = errorMessage (details f)"
    using rewritePrompt_failure_shape [of svc w p tone type r calls] by blast
  then show "\<exists>f. r = Failure f \<and> failure_success f = False
           \<and> fallback f = getMockResponse p tone type (clock_start w) (clock_end w)
           \<and> rewrittenPrompt (fallback f) = mockRewritten p tone type
           \<and> (error f = ''Failed to connect to Gemini API'' \<or> error f = errorMessage (details f))"
    by (simp add: getMockResponse_def)
qed (simp_all add: rewritePrompt_probe_rejects rewritePrompt_generate_rejects
    rewritePrompt_generate_times_out errorMessage_classes [simplified])

text \<open>The theorem of C2 at a rejected key in the rewrite call, and at a failed probe.\<close>

theorem C2_rewrite_failure_result_witness:
  "rewritePrompt \<lparr> genAI = True, model_handle = True \<rparr>
       \<lparr> probe = Resolves ''ok'', generate = Rejects ''API key not valid'', clock_start = 0, clock_end = 9 \<rparr>
       ''i need help'' ''casual'' ''other''
     = Some (Failure \<lparr> failure_success = False, error = ''API key is invalid or expired'',
                       details = ''API key not valid'',
                       fallback = getMockResponse ''i need help'' ''casual'' ''other'' 0 9 \<rparr>,
             [ProbeCall, GenerateCall ''i need help''])
   \<and> rewritePrompt \<lparr> genAI = True, model_handle = True \<rparr>
       \<lparr> probe = Rejects ''fetch failed'', generate = Unsettled, clock_start = 0, clock_end = 9 \<rparr>
       ''i need help'' ''casual'' ''other''
     = Some (Failure \<lparr> failure_success = False, error = ''Failed to connect to Gemini API'',
                       details = ''fetch failed'',
                       fallback = getMockResponse ''i need help'' ''casual'' ''other'' 0 9 \<rparr>,
             [ProbeCall])
   \<and> rewrittenPrompt (getMockResponse ''i need help'' ''casual'' ''other'' 0 9) = ''Hey, I need help.''"
proof -
  have e: "errorMessage ''API key not valid'' = ''API key is invalid or expired''"
    by code_simp
  have m: "rewrittenPrompt (getMockResponse ''i need help'' ''casual'' ''other'' 0 9) = ''Hey, I need help.''"
    by code_simp
  show ?thesis
    using C2_rewrite_failure_result [of "\<lparr> genAI = True, model_handle = True \<rparr>"
        "\<lparr> probe = Resolves ''ok'', generate = Rejects ''API key not valid'', clock_start = 0, clock_end = 9 \<rparr>"
        "''API key not valid''" "''i need help''" "''casual''" "''other''" "''ok''"]
      C2_rewrite_failure_result [of "\<lparr> genAI = True, model_handle = True \<rparr>"
        "\<lparr> probe = Rejects ''fetch failed'', generate = Unsettled, clock_start = 0, clock_end = 9 \<rparr>"
        "''fetch failed''" "''i need help''" "''casual''" "''other''" "''ok''"]
    by (simp add: e m)
qed

text \<open>
  C2 as stated fails when the probe fails: the message is not the one that the substrings
  of the failure message select.
\<close>

theorem C2_probe_message_counterexample:
  "rewritePrompt \<lparr> genAI = True, model_handle = True \<rparr>
       \<lparr> probe = Rejects ''fetch failed'', generate = Unsettled, clock_start = 0, clock_end = 9 \<rparr>
       ''i need help'' ''casual'' ''other''
     = Some (Failure \<lparr> failure_success = False, error = ''Failed to connect to Gemini API'',
                       details = ''fetch failed'',
                       fallback = getMockResponse ''i need help'' ''casual'' ''other'' 0 9 \<rparr>,
             [ProbeCall])
   \<and> errorMessage ''fetch failed'' = ''Network connection failed - check your internet connection''
   \<and> ''Failed to connect to Gemini API'' \<noteq> errorMessage ''fetch failed''"
proof -
  have e: "errorMessage ''fetch failed'' = ''Network connection failed - check your internet connection''"
    by code_simp
  show ?thesis
    by (simp add: e rewritePrompt_def testConnection_def)
qed

lemma is_space_letter_a: "\<not> is_space CHR ''a''"
  by (simp add: is_space_def)

lemma trim_replicate_a: "trim (replicate n CHR ''a'') = replicate n CHR ''a''"
  by (simp add: trim_def dropWhile_replicate is_space_letter_a)

lemma trim_spaces_replicate_a: "trim (''  '' @ replicate n CHR ''a'') = replicate n CHR ''a''"
  by (simp add: trim_def dropWhile_replicate is_space_letter_a) (simp add: is_space_def)

lemma validateRewriteRequest_status:
  "validateRewriteRequest req = Some e \<Longrightarrow> status e = 400"
  by (auto simp: validateRewriteRequest_def split: if_splits)

lemma validateRewriteRequest_None_iff:
  "validateRewriteRequest req = None \<longleftrightarrow>
     (\<exists>p. req_prompt req = JStr p \<and> p \<noteq> [])
     \<and> \<not> (case req_tone req of Some t \<Rightarrow> t \<noteq> [] \<and> t \<notin> set validTones | None \<Rightarrow> False)
     \<and> \<not> (case req_type req of Some t \<Rightarrow> t \<noteq> [] \<and> t \<notin> set validTypes | None \<Rightarrow> False)"
  by (cases "req_prompt req") (auto simp: validateRewriteRequest_def split: option.splits)

lemma rewrite_string_prompt_rejects_iff:
  "(\<exists>out. rewrite_string_prompt svc w db p tone type uid = Some out
          \<and> response_status (response out) = 400)
   \<longleftrightarrow> (length (trim p) = 0 \<or> 5000 < length p)"
  by (auto simp: rewrite_string_prompt_def Let_def
      split: option.splits rewrite_result.splits sum.splits prod.splits if_splits)

lemma rewrite_string_prompt_rejection_calls:
  "rewrite_string_prompt svc w db p tone type uid = Some out \<Longrightarrow>
   response_status (response out) = 400 \<Longrightarrow> api_calls out = [] \<and> store_after out = db"
  by (auto simp: rewrite_string_prompt_def Let_def
      split: option.splits rewrite_result.splits sum.splits prod.splits if_splits)

lemma trim_empty: "trim [] = []"
  by (simp add: trim_def)

text \<open>
  Claim C1, as amended. A rewrite request is answered with the status 400 exactly when the
  prompt is not a string, or is empty after trimming, or is longer than 5000 characters
  before trimming, or the tone or the type is a non-empty string outside its enumeration.
  On such an answer no call of the provider was made and the store is as before.
\<close>

theorem C1_rewrite_rejection:
  "((\<exists>out. post_rewrite svc w db req = Some out \<and> response_status (response out) = 400)
      \<longleftrightarrow> ((case req_prompt req of JStr p \<Rightarrow> length (trim p) = 0 \<or> 5000 < length p | _ \<Rightarrow> True)
           \<or> (case req_tone req of Some t \<Rightarrow> t \<noteq> [] \<and> t \<notin> set validTones | None \<Rightarrow> False)
           \<or> (case req_type req of Some t \<Rightarrow> t \<noteq> [] \<and> t \<notin> set validTypes | None \<Rightarrow> False)))
   \<and> (\<forall>out. post_rewrite svc w db req = Some out \<and> response_status (response out) = 400
         \<longrightarrow> api_calls out = [] \<and> store_after out = db)"
proof (cases "validateRewriteRequest req")
  case None
  then obtain p where p: "req_prompt req = JStr p" "p \<noteq> []"
    and tone: "\<not> (case req_tone req of Some t \<Rightarrow> t \<noteq> [] \<and> t \<notin> set validTones | None \<Rightarrow> False)"
    and type: "\<not> (case req_type req of Some t \<Rightarrow> t \<noteq> [] \<and> t \<notin> set validTypes | None \<Rightarrow> False)"
    by (auto simp: validateRewriteRequest_None_iff)
  have run: "post_rewrite svc w db req
      = rewrite_string_prompt svc w db p
          (case req_tone req of Some t \<Rightarrow> t | None \<Rightarrow> ''professional'')
          (case req_type req of Some t \<Rightarrow> t | None \<Rightarrow> ''other'') (req_userId req)"
    using None p by (simp add: post_rewrite_def controller_rewritePrompt_def Let_def)
  have b: "\<forall>out. rewrite_string_prompt svc w db p
          (case req_tone req of Some t \<Rightarrow> t | None \<Rightarrow> ''professional'')
          (case req_type req of Some t \<Rightarrow> t | None \<Rightarrow> ''other'') (req_userId req) = Some out
        \<and> response_status (response out) = 400 \<longrightarrow> api_calls out = [] \<and> store_after out = db"
    using rewrite_string_prompt_rejection_calls by blast
  show ?thesis
    unfolding run
    using p tone type b by (simp add: rewrite_string_prompt_rejects_iff)
next
  case (Some e)
  then have run: "post_rewrite svc w db req
      = Some \<lparr> response = ClientError e, store_after = db, api_calls = [] \<rparr>"
    by (simp add: post_rewrite_def)
  have "(case req_prompt req of JStr p \<Rightarrow> length (trim p) = 0 \<or> 5000 < length p | _ \<Rightarrow> True)
           \<or> (case req_tone req of Some t \<Rightarrow> t \<noteq> [] \<and> t \<notin> set validTones | None \<Rightarrow> False)
           \<or> (case req_type req of Some t \<Rightarrow> t \<noteq> [] \<and> t \<notin> set validTypes | None \<Rightarrow> False)"
    using Some validateRewriteRequest_None_iff [of req]
    by (cases "req_prompt req") (auto simp: trim_empty)
  then show ?thesis
    unfolding run using validateRewriteRequest_status [OF Some] by auto
qed

text \<open>The theorem of C1 at 5000 characters, which pass, and at 5001, which do not.\<close>

theorem C1_rewrite_rejection_witness:
  "\<not> (\<exists>out. post_rewrite (initializeService None True)
              \<lparr> probe = Unsettled, generate = Unsettled, clock_start = 0, clock_end = 1 \<rparr> []
              \<lparr> req_prompt = JStr (replicate 5000 CHR ''a''), req_tone = Some ''formal'',
                req_type = None, req_userId = None \<rparr> = Some out
            \<and> response_status (response out) = 400)
   \<and> (\<exists>out. post_rewrite (initializeService None True)
              \<lparr> probe = Unsettled, generate = Unsettled, clock_start = 0, clock_end = 1 \<rparr> []
              \<lparr> req_prompt = JStr (replicate 5001 CHR ''a''), req_tone = Some ''formal'',
                req_type = None, req_userId = None \<rparr> = Some out
            \<and> response_status (response out) = 400 \<and> api_calls out = [])"
proof -
  have f: "''formal'' \<in> set validTones"
    by (simp add: validTones_def)
  show ?thesis
    using C1_rewrite_rejection [of "initializeService None True"
        "\<lparr> probe = Unsettled, generate = Unsettled, clock_start = 0, clock_end = 1 \<rparr>" "[]"
        "\<lparr> req_prompt = JStr (replicate 5000 CHR ''a''), req_tone = Some ''formal'',
           req_type = None, req_userId = None \<rparr>"]
      C1_rewrite_rejection [of "initializeService None True"
        "\<lparr> probe = Unsettled, generate = Unsettled, clock_start = 0, clock_end = 1 \<rparr>" "[]"
        "\<lparr> req_prompt = JStr (replicate 5001 CHR ''a''), req_tone = Some ''formal'',
           req_type = None, req_userId = None \<rparr>"]
    by (simp add: f trim_replicate_a) blast
qed

text \<open>
  C1 as stated fails on a prompt of 4999 letters after two spaces: it is not empty and
  not longer than 5000 characters after trimming, and it is rejected.
\<close>

theorem C1_untrimmed_length_counterexample:
  "trim (''  '' @ replicate 4999 CHR ''a'') \<noteq> []
   \<and> length (trim (''  '' @ replicate 4999 CHR ''a'')) \<le> 5000
   \<and> post_rewrite (initializeService None True)
        \<lparr> probe = Unsettled, generate = Unsettled, clock_start = 0, clock_end = 1 \<rparr> []
        \<lparr> req_prompt = JStr (''  '' @ replicate 4999 CHR ''a''), req_tone = None,
          req_type = None, req_userId = None \<rparr>
      = Some \<lparr> response = ClientError \<lparr> status = 400, err_error = ''Prompt too long'',
                   err_message = ''Prompt must be less than 5000 characters'' \<rparr>,
               store_after = [], api_calls = [] \<rparr>"
proof -
  have t: "trim (''  '' @ replicate 4999 CHR ''a'') = replicate 4999 CHR ''a''"
    by (rule trim_spaces_replicate_a)
  have v: "validateRewriteRequest \<lparr> req_prompt = JStr (''  '' @ replicate 4999 CHR ''a''),
      req_tone = None, req_type = None, req_userId = None \<rparr> = None"
    by (simp add: validateRewriteRequest_def)
  show ?thesis
    unfolding t post_rewrite_def v
    by (simp add: controller_rewritePrompt_def rewrite_string_prompt_def Let_def
        trim_spaces_replicate_a [simplified])
qed

section \<open>Properties of the store\<close>

lemma length_split_space: "length (split_space acc s) = Suc (count_list s CHR '' '')"
  by (induction s arbitrary: acc) simp_all

lemma pre_save_word_counts:
  "originalPrompt d \<noteq> [] \<Longrightarrow> doc_rewrittenPrompt d \<noteq> [] \<Longrightarrow>
   wordCount_original (doc_metadata (pre_save d)) = Suc (count_list (originalPrompt d) CHR '' '')
   \<and> wordCount_rewritten (doc_metadata (pre_save d)) = Suc (count_list (doc_rewrittenPrompt d) CHR '' '')"
  by (simp add: pre_save_def length_split_space)

lemma save_recomputes_word_counts:
  assumes "save db d = Inr (d', db')"
  shows "originalPrompt d' = originalPrompt d \<and> doc_rewrittenPrompt d' = doc_rewrittenPrompt d
     \<and> wordCount_original (doc_metadata d') = length (split_space [] (originalPrompt d'))
     \<and> wordCount_rewritten (doc_metadata d') = length (split_space [] (doc_rewrittenPrompt d'))
     \<and> db' = db @ [d']"
  using assms
  by (auto simp: save_def validate_doc_def pre_save_def Let_def split: if_splits)

lemma autosave_word_count_hello_world:
  "map_option (\<lambda>out. map (\<lambda>d. (originalPrompt d, wordCount_original (doc_metadata d))) (store_after out))
     (post_rewrite (initializeService None True)
        \<lparr> probe = Unsettled, generate = Unsettled, clock_start = 0, clock_end = 1 \<rparr> []
        \<lparr> req_prompt = JStr ''hello   world'', req_tone = None, req_type = None,
          req_userId = Some ''u1'' \<rparr>)
   = Some [(''hello   world'', 4)]"
  by code_simp

text \<open>
  Claim C6 at a prompt with two spaces in a row. The hook of \<^verbatim>\<open>save\<close> does recompute
  the word counts whatever the caller supplied (here the caller says 2), but it counts the
  pieces between single spaces: for the stored \<^verbatim>\<open>a  b\<close> it stores 3, where the text
  has 2 words separated by white space.
\<close>

theorem C6_word_count_of_double_space:
  "saveToHistory [] 10 \<lparr> hr_userId = Some ''u1'', hr_originalPrompt = Some ''a  b'',
       hr_rewrittenPrompt = Some ''x'', hr_tone = None, hr_type = None,
       hr_metadata = Some (empty_metadata\<lparr> in_wordCount_original := Some 2 \<rparr>) \<rparr>
     = (Inr (sample_doc 1 ''u1'' ''a  b'' ''x'' False\<lparr> timestamp := 10 \<rparr>),
        [sample_doc 1 ''u1'' ''a  b'' ''x'' False\<lparr> timestamp := 10 \<rparr>])
   \<and> originalPrompt (sample_doc 1 ''u1'' ''a  b'' ''x'' False) = ''a  b''
   \<and> wordCount_original (doc_metadata (sample_doc 1 ''u1'' ''a  b'' ''x'' False)) = 3
   \<and> spec_word_count ''a  b'' = 2"
  by code_simp

section \<open>Properties of the deletion\<close>







text \<open>
  C8 as stated fails on an owner identifier that differs from the record's \<^verbatim>\<open>userId\<close>
  by a leading space: the filter is trimmed when it is cast, and the record is deleted.
\<close>

theorem C8_trimmed_owner_counterexample:
  "'' bob'' \<noteq> userId (sample_doc 2 ''bob'' ''b'' ''B.'' True)
   \<and> deleteHistoryItem (\<lambda>p. None)
       [sample_doc 1 ''alice'' ''a'' ''A.'' False, sample_doc 2 ''bob'' ''b'' ''B.'' True]
       (doc_id (sample_doc 2 ''bob'' ''b'' ''B.'' True)) (Some '' bob'')
     = (DeleteOk 2, [sample_doc 1 ''alice'' ''a'' ''A.'' False])"
  by code_simp

section \<open>Properties of the listings\<close>






section \<open>Properties of the search\<close>



























end
